theory Spec2Isabelle
  imports Main
begin

section \<open>Request data\<close>

text \<open>
  The handlers of \<^verbatim>\<open>src/routes/tasks.ts\<close> read three things from a request:
  \<^verbatim>\<open>req.body\<close> (what \<^verbatim>\<open>express.json()\<close> parsed), \<^verbatim>\<open>req.params.id\<close> (a string) and
  \<^verbatim>\<open>req.query.status\<close>.

  The value of a member of a parsed JSON body: \<^verbatim>\<open>null\<close>, a boolean, a number, a
  string or an array. A number is kept as the text that JavaScript's
  \<^verbatim>\<open>Number.prototype.toString\<close> gives for it (\<^verbatim>\<open>"0"\<close> for zero, \<^verbatim>\<open>"1"\<close> for one): the
  program observes a number only through that text and through equality with 0 and 1.
  A member whose value is itself an object is outside this model.
\<close>

datatype json =
    JNull
  | JBool bool
  | JNum string
  | JStr string
  | JArr "json list"

text \<open>
  A body that is an object is the list of its members in the order of the document;
  a later member with the same key overrides an earlier one, as \<^verbatim>\<open>JSON.parse\<close>
  does. \<open>None\<close> is a \<^verbatim>\<open>req.body\<close> that is \<^verbatim>\<open>undefined\<close> or \<^verbatim>\<open>null\<close>. (A body that
  is an array has no property \<^verbatim>\<open>text\<close> or \<^verbatim>\<open>completed\<close> and behaves as the empty
  object.)
\<close>

type_synonym jobject = "(string \<times> json) list"

type_synonym req_body = "jobject option"

text \<open>
  What is thrown inside a handler's \<^verbatim>\<open>try\<close> block. \<open>CastError\<close> and
  \<open>ValidationError\<close> carry the path they complain about, \<open>MongoServerError\<close> the
  server's error code, \<open>StoreFailure\<close> the detail of any other failure of the store
  layer (a lost connection, a timeout, ...).
\<close>

datatype error =
    TypeError
  | CastError string
  | ValidationError string
  | MongoServerError nat
  | StoreFailure string

text \<open>
  The property \<open>k\<close> of the body, when the body is an object that has it; the
  result \<open>None\<close> is JavaScript's \<^verbatim>\<open>undefined\<close>.
\<close>

fun get_prop :: "string \<Rightarrow> req_body \<Rightarrow> json option" where
  "get_prop k (Some kvs) = map_of (rev kvs) k"
| "get_prop k None = None"

text \<open>
  \<^verbatim>\<open>const { k } = req.body\<close>: destructuring \<^verbatim>\<open>undefined\<close> or \<^verbatim>\<open>null\<close> throws a
  TypeError, an object yields the property or \<^verbatim>\<open>undefined\<close>.
\<close>

definition destructure :: "string \<Rightarrow> req_body \<Rightarrow> error + json option" where
  "destructure k b = (case b of None \<Rightarrow> Inl TypeError | Some kvs \<Rightarrow> Inr (get_prop k b))"

text \<open>
  \<^verbatim>\<open>req.query.status\<close>: absent, a string, or something else (the query parser
  yields an array or an object for \<^verbatim>\<open>?status=a&status=b\<close> or \<^verbatim>\<open>?status[x]=a\<close>).
\<close>

datatype query_value = QAbsent | QString string | QOther

section \<open>The Task model (src/models/Task.ts) and the store behind it\<close>

text \<open>
  \<^verbatim>\<open>ITask\<close>: a document with \<^verbatim>\<open>_id\<close>, \<^verbatim>\<open>text\<close> and \<^verbatim>\<open>completed\<close>. The interface
  declares \<^verbatim>\<open>text: string\<close> and \<^verbatim>\<open>completed: boolean\<close>, but the types are erased
  at run time and the store can hold \<^verbatim>\<open>null\<close> in either field (\<open>None\<close> below).
  An ObjectId is kept in its canonical form, 24 lower-case hexadecimal digits.
\<close>

type_synonym objectid = string

record task =
  task_id :: objectid
  task_text :: "string option"
  task_completed :: "bool option"

text \<open>
  The collection, in insertion order (the order in which an unsorted \<^verbatim>\<open>find\<close>
  returns the documents). The server keeps \<^verbatim>\<open>_id\<close> unique.
\<close>

type_synonym store = "task list"

definition ids :: "store \<Rightarrow> objectid set" where
  "ids st = set (map task_id st)"

definition wf_store :: "store \<Rightarrow> bool" where
  "wf_store st = distinct (map task_id st)"

text \<open>
  A failure of the store layer that is not caused by the request (no connection,
  timeout): \<open>Some e\<close> makes the store call of the request throw \<open>e\<close> without
  touching the collection, \<open>None\<close> lets it run.
\<close>

type_synonym fault = "error option"

subsection \<open>Casting\<close>

text \<open>
  The persistence layer is the mongoose library; it is not part of the repository.
  The definitions of the store, from here to the handlers, follow what mongoose 8
  does (earlier versions differ: version 5 sends an \<^verbatim>\<open>undefined\<close> key of an update
  as \<^verbatim>\<open>null\<close>, and older ObjectId casts accept more strings) for the schema of
  \<^verbatim>\<open>src/models/Task.ts\<close>:
  \<^verbatim>\<open>text: { type: String, required: true }\<close>,
  \<^verbatim>\<open>completed: { type: Boolean, default: false }\<close>.

  Casting a string to an ObjectId succeeds on 24 hexadecimal digits and throws a
  CastError on anything else.
\<close>

definition is_hex :: "char \<Rightarrow> bool" where
  "is_hex c = (c \<in> set ''0123456789abcdefABCDEF'')"

definition hex_lower :: "char \<Rightarrow> char" where
  "hex_lower c =
     (if c = CHR ''A'' then CHR ''a''
      else if c = CHR ''B'' then CHR ''b''
      else if c = CHR ''C'' then CHR ''c''
      else if c = CHR ''D'' then CHR ''d''
      else if c = CHR ''E'' then CHR ''e''
      else if c = CHR ''F'' then CHR ''f''
      else c)"

definition isValidObjectId :: "string \<Rightarrow> bool" where
  "isValidObjectId s = (length s = 24 \<and> list_all is_hex s)"

definition castObjectId :: "string \<Rightarrow> error + objectid" where
  "castObjectId s =
     (if isValidObjectId s then Inr (map hex_lower s) else Inl (CastError ''_id''))"

text \<open>
  Casting to the schema type String: \<^verbatim>\<open>null\<close> stays \<^verbatim>\<open>null\<close>, a string is kept,
  a number or a boolean becomes its \<^verbatim>\<open>toString()\<close>, an array is a CastError.
\<close>

fun castString :: "json \<Rightarrow> error + string option" where
  "castString JNull = Inr None"
| "castString (JStr s) = Inr (Some s)"
| "castString (JNum n) = Inr (Some n)"
| "castString (JBool b) = Inr (Some (if b then ''true'' else ''false''))"
| "castString (JArr vs) = Inl (CastError ''text'')"

text \<open>
  Casting to the schema type Boolean: \<^verbatim>\<open>true, 'true', 1, '1', 'yes'\<close> are true,
  \<^verbatim>\<open>false, 'false', 0, '0', 'no'\<close> are false, \<^verbatim>\<open>null\<close> stays \<^verbatim>\<open>null\<close>, anything
  else is a CastError.
\<close>

fun castBoolean :: "json \<Rightarrow> error + bool option" where
  "castBoolean JNull = Inr None"
| "castBoolean (JBool b) = Inr (Some b)"
| "castBoolean (JStr s) =
     (if s = ''true'' \<or> s = ''1'' \<or> s = ''yes'' then Inr (Some True)
      else if s = ''false'' \<or> s = ''0'' \<or> s = ''no'' then Inr (Some False)
      else Inl (CastError ''completed''))"
| "castBoolean (JNum n) =
     (if n = ''1'' then Inr (Some True)
      else if n = ''0'' then Inr (Some False)
      else Inl (CastError ''completed''))"
| "castBoolean v = Inl (CastError ''completed'')"

subsection \<open>Creating a document: \<^verbatim>\<open>new Task({ text })\<close> and \<^verbatim>\<open>task.save()\<close>\<close>

text \<open>
  The constructor gives the document the generated \<^verbatim>\<open>_id\<close>, casts \<^verbatim>\<open>text\<close> when
  it is given (remembering a cast error instead of throwing it) and applies the
  default \<^verbatim>\<open>completed = false\<close>. The generated identifier is an input of the model.
\<close>

record document =
  doc :: task
  doc_cast_error :: "error option"

definition new_Task :: "objectid \<Rightarrow> json option \<Rightarrow> document" where
  "new_Task fresh text_arg =
     (case text_arg of
        None \<Rightarrow>
          \<lparr>doc = \<lparr>task_id = fresh, task_text = None, task_completed = Some False\<rparr>,
           doc_cast_error = None\<rparr>
      | Some v \<Rightarrow>
          (case castString v of
             Inl e \<Rightarrow>
               \<lparr>doc = \<lparr>task_id = fresh, task_text = None, task_completed = Some False\<rparr>,
                doc_cast_error = Some e\<rparr>
           | Inr s \<Rightarrow>
               \<lparr>doc = \<lparr>task_id = fresh, task_text = s, task_completed = Some False\<rparr>,
                doc_cast_error = None\<rparr>))"

text \<open>
  Validation before the insert: a remembered cast error fails it, and
  \<^verbatim>\<open>required: true\<close> on a String path fails it when the value is \<^verbatim>\<open>undefined\<close>,
  \<^verbatim>\<open>null\<close> or the empty string.
\<close>

definition validate :: "document \<Rightarrow> error option" where
  "validate d =
     (case doc_cast_error d of
        Some e \<Rightarrow> Some (ValidationError ''text'')
      | None \<Rightarrow>
          (case task_text (doc d) of
             None \<Rightarrow> Some (ValidationError ''text'')
           | Some s \<Rightarrow> if s = [] then Some (ValidationError ''text'') else None))"

text \<open>
  \<^verbatim>\<open>save()\<close>: validate, then insert; the server rejects a duplicate \<^verbatim>\<open>_id\<close>
  (error code 11000).
\<close>

definition Task_save :: "fault \<Rightarrow> document \<Rightarrow> store \<Rightarrow> error + store" where
  "Task_save fault d st =
     (case validate d of
        Some e \<Rightarrow> Inl e
      | None \<Rightarrow>
          (case fault of
             Some e \<Rightarrow> Inl e
           | None \<Rightarrow>
               if task_id (doc d) \<in> ids st then Inl (MongoServerError 11000)
               else Inr (st @ [doc d])))"

subsection \<open>Queries: \<^verbatim>\<open>Task.find(filter)\<close>\<close>

text \<open>
  The two shapes of filter the handlers build: \<^verbatim>\<open>{}\<close> and \<^verbatim>\<open>{ completed: b }\<close>.
  An equality match on a boolean selects the documents whose field holds exactly
  that boolean; a document whose field is \<^verbatim>\<open>null\<close> matches neither boolean.
\<close>

datatype filter = MatchAll | CompletedIs bool

fun matches :: "filter \<Rightarrow> task \<Rightarrow> bool" where
  "matches MatchAll t = True"
| "matches (CompletedIs b) t = (task_completed t = Some b)"

definition Task_find :: "fault \<Rightarrow> filter \<Rightarrow> store \<Rightarrow> error + task list" where
  "Task_find fault f st =
     (case fault of Some e \<Rightarrow> Inl e | None \<Rightarrow> Inr (filter (matches f) st))"

subsection \<open>\<^verbatim>\<open>Task.findByIdAndUpdate(id, { text, completed }, { new: true })\<close>\<close>

text \<open>
  The update document is cast before it is sent: a key whose value is
  \<^verbatim>\<open>undefined\<close> is removed from the update (the field keeps its value), a key whose
  value is \<^verbatim>\<open>null\<close> is sent as \<^verbatim>\<open>null\<close>, any other value is cast to the type
  of the path. Validators do not run on an update unless \<^verbatim>\<open>runValidators\<close> is set,
  and the handler does not set it. In the cast update, \<open>None\<close> is a removed key,
  \<open>Some None\<close> sets \<^verbatim>\<open>null\<close>.
\<close>

record update =
  set_text :: "string option option"
  set_completed :: "bool option option"

definition castUpdate :: "json option \<Rightarrow> json option \<Rightarrow> error + update" where
  "castUpdate text_arg completed_arg =
     (case (case text_arg of None \<Rightarrow> Inr None
                           | Some v \<Rightarrow> map_sum id Some (castString v)) of
        Inl e \<Rightarrow> Inl e
      | Inr t \<Rightarrow>
          (case (case completed_arg of None \<Rightarrow> Inr None
                                     | Some v \<Rightarrow> map_sum id Some (castBoolean v)) of
             Inl e \<Rightarrow> Inl e
           | Inr c \<Rightarrow> Inr \<lparr>set_text = t, set_completed = c\<rparr>))"

definition apply_update :: "update \<Rightarrow> task \<Rightarrow> task" where
  "apply_update u t =
     t\<lparr>task_text := (case set_text u of None \<Rightarrow> task_text t | Some x \<Rightarrow> x),
       task_completed := (case set_completed u of None \<Rightarrow> task_completed t | Some x \<Rightarrow> x)\<rparr>"

text \<open>The first document with the given \<^verbatim>\<open>_id\<close> is replaced; \<open>None\<close> when there is none.\<close>

fun update_first :: "objectid \<Rightarrow> (task \<Rightarrow> task) \<Rightarrow> store \<Rightarrow> task option \<times> store" where
  "update_first i f [] = (None, [])"
| "update_first i f (t # ts) =
     (if task_id t = i then (Some (f t), f t # ts)
      else (case update_first i f ts of (r, ts') \<Rightarrow> (r, t # ts')))"

definition Task_findByIdAndUpdate ::
  "fault \<Rightarrow> string \<Rightarrow> json option \<Rightarrow> json option \<Rightarrow> store \<Rightarrow> error + (task option \<times> store)" where
  "Task_findByIdAndUpdate fault id_arg text_arg completed_arg st =
     (case castObjectId id_arg of
        Inl e \<Rightarrow> Inl e
      | Inr i \<Rightarrow>
          (case castUpdate text_arg completed_arg of
             Inl e \<Rightarrow> Inl e
           | Inr u \<Rightarrow>
               (case fault of
                  Some e \<Rightarrow> Inl e
                | None \<Rightarrow> Inr (update_first i (apply_update u) st))))"

subsection \<open>\<^verbatim>\<open>Task.findByIdAndDelete(id)\<close>\<close>

fun delete_first :: "objectid \<Rightarrow> store \<Rightarrow> task option \<times> store" where
  "delete_first i [] = (None, [])"
| "delete_first i (t # ts) =
     (if task_id t = i then (Some t, ts)
      else (case delete_first i ts of (r, ts') \<Rightarrow> (r, t # ts')))"

definition Task_findByIdAndDelete ::
  "fault \<Rightarrow> string \<Rightarrow> store \<Rightarrow> error + (task option \<times> store)" where
  "Task_findByIdAndDelete fault id_arg st =
     (case castObjectId id_arg of
        Inl e \<Rightarrow> Inl e
      | Inr i \<Rightarrow>
          (case fault of
             Some e \<Rightarrow> Inl e
           | None \<Rightarrow> Inr (delete_first i st)))"

section \<open>The handlers (src/routes/tasks.ts)\<close>

text \<open>
  A response is the status given to \<^verbatim>\<open>res.status\<close> and the value given to
  \<^verbatim>\<open>res.json\<close>: the envelope \<^verbatim>\<open>{ response, status, msg }\<close> or \<^verbatim>\<open>{ error }\<close>
  (\<open>Bare\<close>, the documents with no envelope, is used by the second copy of the
  router only, see below).
\<close>

datatype content = One task | Many "task list"

datatype payload = Envelope content nat string | ErrorBody string | Bare content

record response =
  status :: nat
  body :: payload

text \<open>
  Each handler is a \<^verbatim>\<open>try\<close> block and a \<^verbatim>\<open>catch\<close> that answers 500 with a fixed
  message. The \<open>_try\<close> function is the block, with a thrown error as \<open>Inl\<close>; the
  handler returns the response and the collection after the request.
\<close>

definition post_try :: "fault \<Rightarrow> objectid \<Rightarrow> req_body \<Rightarrow> store \<Rightarrow> error + (response \<times> store)" where
  "post_try fault fresh req_body st =
     (case destructure ''text'' req_body of
        Inl e \<Rightarrow> Inl e
      | Inr text_arg \<Rightarrow>
          (let d = new_Task fresh text_arg in
           case Task_save fault d st of
             Inl e \<Rightarrow> Inl e
           | Inr st' \<Rightarrow>
               Inr (\<lparr>status = 201, body = Envelope (One (doc d)) 201 ''Todo Created''\<rparr>, st')))"

definition post_handler :: "fault \<Rightarrow> objectid \<Rightarrow> req_body \<Rightarrow> store \<Rightarrow> response \<times> store" where
  "post_handler fault fresh req_body st =
     (case post_try fault fresh req_body st of
        Inl e \<Rightarrow> (\<lparr>status = 500, body = ErrorBody ''Failed to create todo''\<rparr>, st)
      | Inr r \<Rightarrow> r)"

text \<open>
  \<^verbatim>\<open>GET /\<close>: \<^verbatim>\<open>let filter = {}\<close>, overwritten by the \<^verbatim>\<open>if\<close>/\<^verbatim>\<open>else if\<close> on
  \<^verbatim>\<open>status === "active"\<close> and \<^verbatim>\<open>status === "completed"\<close>.
\<close>

definition get_root_filter :: "query_value \<Rightarrow> filter" where
  "get_root_filter st_arg =
     (let f = MatchAll in
      if st_arg = QString ''active'' then CompletedIs False
      else if st_arg = QString ''completed'' then CompletedIs True
      else f)"

definition get_root_handler :: "fault \<Rightarrow> query_value \<Rightarrow> store \<Rightarrow> response" where
  "get_root_handler fault st_arg st =
     (case Task_find fault (get_root_filter st_arg) st of
        Inl e \<Rightarrow> \<lparr>status = 500, body = ErrorBody ''Failed to fetch todos''\<rparr>
      | Inr tasks \<Rightarrow> \<lparr>status = 200, body = Envelope (Many tasks) 200 ''success''\<rparr>)"

text \<open>\<^verbatim>\<open>GET /filter\<close>: the same choice written as a nested conditional expression.\<close>

definition get_filter_filter :: "query_value \<Rightarrow> filter" where
  "get_filter_filter st_arg =
     (if st_arg = QString ''active'' then CompletedIs False
      else (if st_arg = QString ''completed'' then CompletedIs True else MatchAll))"

definition get_filter_handler :: "fault \<Rightarrow> query_value \<Rightarrow> store \<Rightarrow> response" where
  "get_filter_handler fault st_arg st =
     (case Task_find fault (get_filter_filter st_arg) st of
        Inl e \<Rightarrow> \<lparr>status = 500, body = ErrorBody ''Failed to filter todos''\<rparr>
      | Inr tasks \<Rightarrow> \<lparr>status = 200, body = Envelope (Many tasks) 200 ''success''\<rparr>)"

text \<open>\<^verbatim>\<open>PUT /:id\<close>.\<close>

definition put_try :: "fault \<Rightarrow> string \<Rightarrow> req_body \<Rightarrow> store \<Rightarrow> error + (response \<times> store)" where
  "put_try fault id_arg req_body st =
     (case destructure ''text'' req_body of
        Inl e \<Rightarrow> Inl e
      | Inr text_arg \<Rightarrow>
          (case destructure ''completed'' req_body of
             Inl e \<Rightarrow> Inl e
           | Inr completed_arg \<Rightarrow>
               (case Task_findByIdAndUpdate fault id_arg text_arg completed_arg st of
                  Inl e \<Rightarrow> Inl e
                | Inr (None, st') \<Rightarrow>
                    Inr (\<lparr>status = 404, body = ErrorBody ''Todo not found''\<rparr>, st')
                | Inr (Some t, st') \<Rightarrow>
                    Inr (\<lparr>status = 200, body = Envelope (One t) 200 ''Todo Updated''\<rparr>, st'))))"

definition put_handler :: "fault \<Rightarrow> string \<Rightarrow> req_body \<Rightarrow> store \<Rightarrow> response \<times> store" where
  "put_handler fault id_arg req_body st =
     (case put_try fault id_arg req_body st of
        Inl e \<Rightarrow> (\<lparr>status = 500, body = ErrorBody ''Failed to update todo''\<rparr>, st)
      | Inr r \<Rightarrow> r)"

text \<open>\<^verbatim>\<open>DELETE /:id\<close>.\<close>

definition delete_try :: "fault \<Rightarrow> string \<Rightarrow> store \<Rightarrow> error + (response \<times> store)" where
  "delete_try fault id_arg st =
     (case Task_findByIdAndDelete fault id_arg st of
        Inl e \<Rightarrow> Inl e
      | Inr (None, st') \<Rightarrow>
          Inr (\<lparr>status = 404, body = ErrorBody ''Todo not found''\<rparr>, st')
      | Inr (Some t, st') \<Rightarrow>
          Inr (\<lparr>status = 200, body = Envelope (One t) 200 ''Todo deleted successfully''\<rparr>, st'))"

definition delete_handler :: "fault \<Rightarrow> string \<Rightarrow> store \<Rightarrow> response \<times> store" where
  "delete_handler fault id_arg st =
     (case delete_try fault id_arg st of
        Inl e \<Rightarrow> (\<lparr>status = 500, body = ErrorBody ''Failed to delete todo''\<rparr>, st)
      | Inr r \<Rightarrow> r)"

section \<open>The second copy of the router (text appended to src/models/Task.ts)\<close>

text \<open>
  The file \<^verbatim>\<open>src/models/Task.ts\<close> carries, after the model, an other version of
  the router. \<^verbatim>\<open>src/server.ts\<close> mounts \<^verbatim>\<open>./routes/tasks\<close>, so this copy serves
  no request; its two \<^verbatim>\<open>GET\<close> handlers are modelled to compare them with the
  mounted ones. Its \<^verbatim>\<open>GET /\<close> calls \<^verbatim>\<open>Task.find()\<close> and never reads the query.
\<close>

definition variant_get_root_handler :: "fault \<Rightarrow> query_value \<Rightarrow> store \<Rightarrow> response" where
  "variant_get_root_handler fault st_arg st =
     (case Task_find fault MatchAll st of
        Inl e \<Rightarrow> \<lparr>status = 500, body = ErrorBody ''Failed to fetch tasks''\<rparr>
      | Inr tasks \<Rightarrow> \<lparr>status = 200, body = Bare (Many tasks)\<rparr>)"

definition variant_get_filter_handler :: "fault \<Rightarrow> query_value \<Rightarrow> store \<Rightarrow> response" where
  "variant_get_filter_handler fault st_arg st =
     (case Task_find fault (get_filter_filter st_arg) st of
        Inl e \<Rightarrow> \<lparr>status = 500, body = ErrorBody ''Failed to filter tasks''\<rparr>
      | Inr tasks \<Rightarrow> \<lparr>status = 200, body = Bare (Many tasks)\<rparr>)"

section \<open>Observations, invariants and example data\<close>

text \<open>The list of tasks a response carries (empty when it carries none).\<close>

definition listed :: "response \<Rightarrow> task list" where
  "listed r =
     (case body r of
        Envelope (Many ts) c m \<Rightarrow> ts
      | Bare (Many ts) \<Rightarrow> ts
      | _ \<Rightarrow> [])"

text \<open>
  The invariant of the data model: \<^verbatim>\<open>text\<close> is not null and \<^verbatim>\<open>completed\<close> is
  present. (An \<^verbatim>\<open>_id\<close> is never null in this model: \<open>task_id\<close> is a string.)
\<close>

definition task_ok :: "task \<Rightarrow> bool" where
  "task_ok t = (task_text t \<noteq> None \<and> task_completed t \<noteq> None)"

definition store_ok :: "store \<Rightarrow> bool" where
  "store_ok st = list_all task_ok st"

text \<open>The path parameter names a stored task.\<close>

definition resolves :: "string \<Rightarrow> store \<Rightarrow> bool" where
  "resolves id_arg st =
     (case castObjectId id_arg of Inl e \<Rightarrow> False | Inr i \<Rightarrow> i \<in> ids st)"

text \<open>
  The body of a \<^verbatim>\<open>PUT\<close> can be turned into an update: it is an object and
  its \<^verbatim>\<open>text\<close> and \<^verbatim>\<open>completed\<close>, when given, can be cast.
\<close>

definition castable :: "req_body \<Rightarrow> bool" where
  "castable b =
     (case destructure ''text'' b of
        Inl e \<Rightarrow> False
      | Inr t \<Rightarrow>
          (case destructure ''completed'' b of
             Inl e \<Rightarrow> False
           | Inr c \<Rightarrow> (case castUpdate t c of Inl e \<Rightarrow> False | Inr u \<Rightarrow> True)))"

text \<open>Two identifiers, two tasks, and the stores that three requests build.\<close>

definition oid0 :: objectid where
  "oid0 = ''65a1b2c3d4e5f60718293a4b''"

definition oid1 :: objectid where
  "oid1 = ''65a1b2c3d4e5f60718293a4c''"

definition milk :: task where
  "milk = \<lparr>task_id = oid0, task_text = Some ''buy milk'', task_completed = Some False\<rparr>"

definition bread :: task where
  "bread = \<lparr>task_id = oid1, task_text = Some ''buy bread'', task_completed = Some True\<rparr>"

definition store_created :: store where
  "store_created = snd (post_handler None oid0 (Some [(''text'', JStr ''buy milk'')]) [])"

definition store_null_completed :: store where
  "store_null_completed =
     snd (put_handler None oid0 (Some [(''completed'', JNull)]) store_created)"

definition store_null_text :: store where
  "store_null_text =
     snd (put_handler None oid0 (Some [(''text'', JNull)]) store_created)"

text \<open>
  The collections the handlers can build from the empty one: each state-changing
  request, with any arguments and any state of the store layer, is a step.
\<close>

inductive reachable :: "store \<Rightarrow> bool" where
  empty: "reachable []"
| post: "reachable st \<Longrightarrow> reachable (snd (post_handler fault fresh b st))"
| put: "reachable st \<Longrightarrow> reachable (snd (put_handler fault id_arg b st))"
| delete: "reachable st \<Longrightarrow> reachable (snd (delete_handler fault id_arg st))"

section \<open>Facts about the store operations\<close>

lemma update_first_absent: "i \<notin> ids st \<Longrightarrow> update_first i f st = (None, st)"
  by (induction st) (auto simp: ids_def)

lemma map_update_absent:
  "i \<notin> ids st \<Longrightarrow> map (\<lambda>u. if task_id u = i then f u else u) st = st"
  by (induction st) (auto simp: ids_def)

lemma update_first_present:
  "wf_store st \<Longrightarrow> t \<in> set st \<Longrightarrow>
   update_first (task_id t) f st =
     (Some (f t), map (\<lambda>u. if task_id u = task_id t then f u else u) st)"
proof (induction st)
  case Nil
  then show ?case by simp
next
  case (Cons a st)
  show ?case
  proof (cases "task_id a = task_id t")
    case True
    with Cons.prems have "a = t" and "task_id t \<notin> ids st"
      by (auto simp: wf_store_def ids_def)
    then show ?thesis by (simp add: map_update_absent)
  next
    case False
    with Cons show ?thesis by (auto simp: wf_store_def)
  qed
qed

lemma delete_first_absent: "i \<notin> ids st \<Longrightarrow> delete_first i st = (None, st)"
  by (induction st) (auto simp: ids_def)

lemma filter_absent: "i \<notin> ids st \<Longrightarrow> filter (\<lambda>u. task_id u \<noteq> i) st = st"
  by (induction st) (auto simp: ids_def)

lemma delete_first_present:
  "wf_store st \<Longrightarrow> t \<in> set st \<Longrightarrow>
   delete_first (task_id t) st = (Some t, filter (\<lambda>u. task_id u \<noteq> task_id t) st)"
proof (induction st)
  case Nil
  then show ?case by simp
next
  case (Cons a st)
  show ?case
  proof (cases "task_id a = task_id t")
    case True
    with Cons.prems have "a = t" and "task_id t \<notin> ids st"
      by (auto simp: wf_store_def ids_def)
    then show ?thesis by (simp add: filter_absent)
  next
    case False
    with Cons show ?thesis by (auto simp: wf_store_def)
  qed
qed

lemma destructure_get_prop:
  "get_prop k b = Some v \<Longrightarrow> destructure k b = Inr (Some v)"
  by (cases b) (simp_all add: destructure_def)

lemma destructure_not_null:
  "b \<noteq> None \<Longrightarrow> destructure k b = Inr (get_prop k b)"
  by (cases b) (simp_all add: destructure_def)

lemma destructure_Inr: "destructure k b = Inr a \<Longrightarrow> a = get_prop k b"
  by (cases b) (auto simp: destructure_def)

lemma castString_null: "castString v = Inr None \<Longrightarrow> v = JNull"
  by (cases v) (auto split: if_splits)

lemma castBoolean_null: "castBoolean v = Inr None \<Longrightarrow> v = JNull"
  by (cases v) (auto split: if_splits)

lemma map_sum_Some_Inr:
  "map_sum id Some x = Inr y \<longleftrightarrow> (\<exists>z. x = Inr z \<and> y = Some z)"
  by (cases x) auto

lemma castUpdate_not_null:
  assumes "castUpdate a c = Inr u" and "a \<noteq> Some JNull" and "c \<noteq> Some JNull"
  shows "set_text u \<noteq> Some None \<and> set_completed u \<noteq> Some None"
  using assms
  by (cases a; cases c)
    (auto simp: castUpdate_def map_sum_Some_Inr split: sum.splits
      dest: castString_null castBoolean_null)

lemma apply_update_ok:
  "set_text u \<noteq> Some None \<Longrightarrow> set_completed u \<noteq> Some None \<Longrightarrow> task_ok t \<Longrightarrow>
   task_ok (apply_update u t)"
  by (auto simp: task_ok_def apply_update_def split: option.splits)

lemma task_id_new_Task: "task_id (doc (new_Task fresh a)) = fresh"
  by (simp add: new_Task_def split: option.splits sum.splits)

lemma task_completed_new_Task: "task_completed (doc (new_Task fresh a)) = Some False"
  by (simp add: new_Task_def split: option.splits sum.splits)

lemma validate_text: "validate d = None \<Longrightarrow> task_text (doc d) \<noteq> None"
  by (auto simp: validate_def split: option.splits if_splits)

lemma Task_save_Inr:
  "Task_save fault d st = Inr st' \<Longrightarrow>
   st' = st @ [doc d] \<and> validate d = None \<and> task_id (doc d) \<notin> ids st"
  by (auto simp: Task_save_def split: option.splits if_splits)

lemma update_first_ids:
  "(\<And>t. task_id (f t) = task_id t) \<Longrightarrow> map task_id (snd (update_first i f st)) = map task_id st"
  by (induction st) (auto split: prod.splits)

lemma update_first_ok:
  "(\<And>t. task_ok t \<Longrightarrow> task_ok (f t)) \<Longrightarrow> list_all task_ok st \<Longrightarrow>
   list_all task_ok (snd (update_first i f st))"
  by (induction st) (auto split: prod.splits)

lemma task_id_apply_update: "task_id (apply_update u t) = task_id t"
  by (simp add: apply_update_def)

lemma delete_first_set: "set (snd (delete_first i st)) \<subseteq> set st"
  by (induction st) (auto split: prod.splits)

lemma delete_first_ids: "map task_id (snd (delete_first i st)) = remove1 i (map task_id st)"
  by (induction st) (auto split: prod.splits)

lemma delete_first_wf: "wf_store st \<Longrightarrow> wf_store (snd (delete_first i st))"
  by (simp add: wf_store_def delete_first_ids)

lemma Task_findByIdAndUpdate_Inr:
  "Task_findByIdAndUpdate fault id_arg a c st = Inr p \<Longrightarrow>
   \<exists>i u. castUpdate a c = Inr u \<and> p = update_first i (apply_update u) st"
  by (auto simp: Task_findByIdAndUpdate_def split: sum.splits option.splits)

lemma Task_findByIdAndDelete_Inr:
  "Task_findByIdAndDelete fault id_arg st = Inr p \<Longrightarrow> \<exists>i. p = delete_first i st"
  by (auto simp: Task_findByIdAndDelete_def split: sum.splits option.splits)

subsection \<open>The example data\<close>

lemma castObjectId_oid0: "castObjectId oid0 = Inr oid0"
  by (simp add: castObjectId_def isValidObjectId_def oid0_def is_hex_def hex_lower_def)

lemma castObjectId_oid1: "castObjectId oid1 = Inr oid1"
  by (simp add: castObjectId_def isValidObjectId_def oid1_def is_hex_def hex_lower_def)

lemma oid0_neq_oid1: "oid0 \<noteq> oid1"
  by (simp add: oid0_def oid1_def)

lemma store_created_eq: "store_created = [milk]"
  by (simp add: store_created_def post_handler_def post_try_def destructure_def new_Task_def
      Task_save_def validate_def ids_def milk_def)

lemma store_null_completed_eq: "store_null_completed = [milk\<lparr>task_completed := None\<rparr>]"
  by (simp add: store_null_completed_def store_created_eq put_handler_def put_try_def
      destructure_def Task_findByIdAndUpdate_def castObjectId_oid0 castUpdate_def
      apply_update_def milk_def)

lemma store_null_text_eq: "store_null_text = [milk\<lparr>task_text := None\<rparr>]"
  by (simp add: store_null_text_def store_created_eq put_handler_def put_try_def
      destructure_def Task_findByIdAndUpdate_def castObjectId_oid0 castUpdate_def
      apply_update_def milk_def)

section \<open>List and Filter\<close>

lemma get_root_success:
  "get_root_handler None q st =
     \<lparr>status = 200,
      body = Envelope (Many
        (if q = QString ''active'' then filter (\<lambda>t. task_completed t = Some False) st
         else if q = QString ''completed'' then filter (\<lambda>t. task_completed t = Some True) st
         else st)) 200 ''success''\<rparr>"
proof -
  have a: "matches (CompletedIs b) = (\<lambda>t. task_completed t = Some b)" for b
    by (rule ext) simp
  have m: "matches MatchAll = (\<lambda>t. True)"
    by (rule ext) simp
  show ?thesis
    by (simp add: get_root_handler_def get_root_filter_def Task_find_def a m)
qed

lemma listed_get_root:
  "listed (get_root_handler None q st) =
     (if q = QString ''active'' then filter (\<lambda>t. task_completed t = Some False) st
      else if q = QString ''completed'' then filter (\<lambda>t. task_completed t = Some True) st
      else st)"
  by (simp add: get_root_success listed_def)

text \<open>
  On every collection that satisfies the invariant of the data model, \<^verbatim>\<open>GET /\<close>
  with no status returns the union of what \<^verbatim>\<open>status=active\<close> and
  \<^verbatim>\<open>status=completed\<close> return.
\<close>

lemma list_union_of_filters:
  "store_ok st \<Longrightarrow>
   set (listed (get_root_handler None QAbsent st)) =
     set (listed (get_root_handler None (QString ''active'') st))
     \<union> set (listed (get_root_handler None (QString ''completed'') st))"
  by (auto simp: listed_get_root store_ok_def task_ok_def list_all_iff)

text \<open>
  C1. \<^verbatim>\<open>GET /\<close> selects by the three-way predicate on every collection (lemma
  \<open>get_root_success\<close>), and all tasks are the union of the two filtered results on
  every collection whose tasks have a boolean \<^verbatim>\<open>completed\<close> (lemma
  \<open>list_union_of_filters\<close>). The union is lost on the collection that
  \<^verbatim>\<open>POST {text: "buy milk"}\<close> and then \<^verbatim>\<open>PUT {completed: null}\<close> on the new task
  build, because the update is stored without validation: \<^verbatim>\<open>GET /\<close> returns the
  task, \<^verbatim>\<open>GET /?status=active\<close> and \<^verbatim>\<open>GET /?status=completed\<close> return nothing.
\<close>

theorem list_union_fails_after_null_update:
  "get_root_handler None QAbsent store_null_completed =
     \<lparr>status = 200,
      body = Envelope (Many [\<lparr>task_id = oid0, task_text = Some ''buy milk'',
                              task_completed = None\<rparr>]) 200 ''success''\<rparr>
   \<and> get_root_handler None (QString ''active'') store_null_completed =
       \<lparr>status = 200, body = Envelope (Many []) 200 ''success''\<rparr>
   \<and> get_root_handler None (QString ''completed'') store_null_completed =
       \<lparr>status = 200, body = Envelope (Many []) 200 ''success''\<rparr>"
  by (simp add: store_null_completed_eq get_root_success milk_def)

text \<open>
  C3. For every collection, every \<^verbatim>\<open>status\<close> value and every state of the store
  layer, \<^verbatim>\<open>GET /filter\<close> and \<^verbatim>\<open>GET /\<close> answer with the same status and the same
  tasks; on a working store the two responses are equal as a whole.
\<close>

theorem filter_equals_list:
  "get_filter_handler None q st = get_root_handler None q st
   \<and> status (get_filter_handler fault q st) = status (get_root_handler fault q st)
   \<and> listed (get_filter_handler fault q st) = listed (get_root_handler fault q st)"
  by (simp add: get_filter_handler_def get_root_handler_def get_filter_filter_def
      get_root_filter_def Task_find_def listed_def split: option.splits)

text \<open>
  The copy appended to \<^verbatim>\<open>src/models/Task.ts\<close> is different: there \<^verbatim>\<open>GET /\<close>
  returns every task whatever the query says, and \<^verbatim>\<open>GET /filter\<close> filters.
\<close>

lemma variant_get_root_ignores_status:
  "variant_get_root_handler None q st = \<lparr>status = 200, body = Bare (Many st)\<rparr>"
proof -
  have m: "matches MatchAll = (\<lambda>t. True)"
    by (rule ext) simp
  show ?thesis
    by (simp add: variant_get_root_handler_def Task_find_def m)
qed

lemma variant_routes_differ:
  "listed (variant_get_root_handler None (QString ''active'') [milk, bread]) = [milk, bread]
   \<and> listed (variant_get_filter_handler None (QString ''active'') [milk, bread]) = [milk]"
  by (simp add: variant_get_root_ignores_status variant_get_filter_handler_def
      get_filter_filter_def Task_find_def listed_def milk_def bread_def)

section \<open>Create\<close>

lemma post_try_Inr:
  assumes "post_try fault fresh b st = Inr (r, st')"
  shows "\<exists>d. st' = st @ [d] \<and> task_id d = fresh \<and> fresh \<notin> ids st \<and> task_ok d"
proof -
  from assms obtain a where s: "Task_save fault (new_Task fresh a) st = Inr st'"
    by (auto simp: post_try_def Let_def split: sum.splits)
  from Task_save_Inr [OF s] show ?thesis
    by (auto simp: task_id_new_Task task_ok_def task_completed_new_Task dest: validate_text)
qed

lemma snd_post_handler:
  "snd (post_handler fault fresh b st) = st
   \<or> (\<exists>d. snd (post_handler fault fresh b st) = st @ [d] \<and> task_id d = fresh
          \<and> fresh \<notin> ids st \<and> task_ok d)"
proof (cases "post_try fault fresh b st")
  case (Inl e)
  then show ?thesis by (simp add: post_handler_def)
next
  case (Inr p)
  obtain r st' where p: "p = (r, st')" by (cases p)
  from post_try_Inr [OF Inr [unfolded p]] Inr p show ?thesis
    by (auto simp: post_handler_def)
qed

lemma post_preserves_wf: "wf_store st \<Longrightarrow> wf_store (snd (post_handler fault fresh b st))"
  using snd_post_handler [of fault fresh b st]
  by (auto simp: wf_store_def ids_def)

lemma post_preserves_ok: "store_ok st \<Longrightarrow> store_ok (snd (post_handler fault fresh b st))"
  using snd_post_handler [of fault fresh b st]
  by (auto simp: store_ok_def)

lemma post_success:
  assumes "get_prop ''text'' b = Some v" "castString v = Inr (Some s)" "s \<noteq> []"
    "fresh \<notin> ids st"
  shows "post_handler None fresh b st =
     (\<lparr>status = 201,
       body = Envelope (One \<lparr>task_id = fresh, task_text = Some s, task_completed = Some False\<rparr>)
                201 ''Todo Created''\<rparr>,
      st @ [\<lparr>task_id = fresh, task_text = Some s, task_completed = Some False\<rparr>])"
  using assms
  by (simp add: post_handler_def post_try_def destructure_get_prop new_Task_def Task_save_def
      validate_def)

text \<open>
  C2. For every non-empty string, \<^verbatim>\<open>POST /\<close> with that string as the body's
  \<^verbatim>\<open>text\<close>, on a working store and with a generated identifier that no stored
  task has, answers 201 with the new task, and a following \<^verbatim>\<open>GET /\<close> (with no
  status, or with \<^verbatim>\<open>status=active\<close>) lists a task with that text and
  \<^verbatim>\<open>completed = false\<close>.
\<close>

theorem create_then_list:
  assumes "get_prop ''text'' b = Some (JStr s)" and "s \<noteq> []" and "fresh \<notin> ids st"
  shows "fst (post_handler None fresh b st) =
           \<lparr>status = 201,
            body = Envelope
              (One \<lparr>task_id = fresh, task_text = Some s, task_completed = Some False\<rparr>)
              201 ''Todo Created''\<rparr>
         \<and> \<lparr>task_id = fresh, task_text = Some s, task_completed = Some False\<rparr>
             \<in> set (listed (get_root_handler None QAbsent (snd (post_handler None fresh b st))))
         \<and> \<lparr>task_id = fresh, task_text = Some s, task_completed = Some False\<rparr>
             \<in> set (listed (get_root_handler None (QString ''active'')
                               (snd (post_handler None fresh b st))))"
proof -
  have "castString (JStr s) = Inr (Some s)" by simp
  from post_success [OF assms(1) this assms(2) assms(3)]
  show ?thesis by (simp add: listed_get_root)
qed

theorem create_then_list_witness:
  "get_prop ''text'' (Some [(''text'', JStr ''buy milk'')]) = Some (JStr ''buy milk'')
   \<and> ''buy milk'' \<noteq> [] \<and> oid0 \<notin> ids []
   \<and> status (fst (post_handler None oid0 (Some [(''text'', JStr ''buy milk'')]) [])) = 201
   \<and> milk \<in> set (listed (get_root_handler None QAbsent
                             (snd (post_handler None oid0 (Some [(''text'', JStr ''buy milk'')]) []))))"
proof -
  have h1: "get_prop ''text'' (Some [(''text'', JStr ''buy milk'')]) = Some (JStr ''buy milk'')"
    by simp
  have h2: "''buy milk'' \<noteq> []" by simp
  have h3: "oid0 \<notin> ids []" by (simp add: ids_def)
  from create_then_list [OF h1 h2 h3] h1 h2 h3 show ?thesis
    by (simp add: milk_def)
qed

text \<open>
  C7. A \<^verbatim>\<open>POST /\<close> whose body has no \<^verbatim>\<open>text\<close> fails, whatever else the body
  holds and whatever the state of the store layer: the answer is 500, not 201, and
  the collection is what it was.
\<close>

theorem create_without_text:
  assumes "get_prop ''text'' b = None"
  shows "post_handler fault fresh b st =
           (\<lparr>status = 500, body = ErrorBody ''Failed to create todo''\<rparr>, st)"
proof (cases "b = None")
  case True
  then show ?thesis
    by (simp add: post_handler_def post_try_def destructure_def)
next
  case False
  with assms show ?thesis
    by (simp add: post_handler_def post_try_def destructure_not_null new_Task_def
        Task_save_def validate_def)
qed

theorem create_without_text_witness:
  "get_prop ''text'' (Some [(''completed'', JBool True)]) = None
   \<and> post_handler None oid0 (Some [(''completed'', JBool True)]) [milk] =
       (\<lparr>status = 500, body = ErrorBody ''Failed to create todo''\<rparr>, [milk])"
proof -
  have h: "get_prop ''text'' (Some [(''completed'', JBool True)]) = None" by simp
  from create_without_text [OF h] h show ?thesis by blast
qed

lemma post_created_from_text:
  assumes "status (fst (post_handler fault fresh b st)) = 201"
  shows "\<exists>v s. get_prop ''text'' b = Some v \<and> castString v = Inr (Some s) \<and> s \<noteq> []
           \<and> post_handler fault fresh b st =
               (\<lparr>status = 201,
                 body = Envelope
                   (One \<lparr>task_id = fresh, task_text = Some s, task_completed = Some False\<rparr>)
                   201 ''Todo Created''\<rparr>,
                st @ [\<lparr>task_id = fresh, task_text = Some s, task_completed = Some False\<rparr>])"
proof (cases b)
  case None
  with assms show ?thesis
    by (simp add: post_handler_def post_try_def destructure_def)
next
  case (Some kvs)
  show ?thesis
  proof (cases "get_prop ''text'' b")
    case None
    with assms Some show ?thesis
      by (simp add: post_handler_def post_try_def destructure_def new_Task_def Task_save_def
          validate_def)
  next
    case v: (Some v)
    show ?thesis
    proof (cases "castString v")
      case (Inl e)
      with assms Some v show ?thesis
        by (simp add: post_handler_def post_try_def destructure_def new_Task_def Task_save_def
            validate_def)
    next
      case (Inr s)
      with assms Some v show ?thesis
        by (cases s)
          (auto simp: post_handler_def post_try_def destructure_def new_Task_def Task_save_def
            validate_def Let_def split: option.splits if_splits)
    qed
  qed
qed

text \<open>
  C10. \<^verbatim>\<open>POST /\<close> builds the task from the body's \<^verbatim>\<open>text\<close> alone: two bodies
  with the same \<^verbatim>\<open>text\<close> get the same answer and leave the same collection, so a
  \<^verbatim>\<open>completed: true\<close> in the body changes nothing. Every 201 answer reports, and
  adds to the collection, the task whose \<^verbatim>\<open>text\<close> is the cast of the body's
  \<^verbatim>\<open>text\<close>, whose \<^verbatim>\<open>_id\<close> is the generated one and whose \<^verbatim>\<open>completed\<close> is
  false; and on a working store a body whose \<^verbatim>\<open>text\<close> casts to a non-empty string
  gets that answer when the generated \<^verbatim>\<open>_id\<close> is new.
\<close>

theorem create_ignores_completed:
  "(get_prop ''text'' (Some kvs) = get_prop ''text'' (Some kvs') \<longrightarrow>
      post_handler fault fresh (Some kvs) st = post_handler fault fresh (Some kvs') st)
   \<and> post_handler fault fresh (Some [(''text'', v), (''completed'', JBool True)]) st =
       post_handler fault fresh (Some [(''text'', v)]) st
   \<and> (status (fst (post_handler fault fresh b st)) = 201 \<longrightarrow>
        (\<exists>w s. get_prop ''text'' b = Some w \<and> castString w = Inr (Some s) \<and> s \<noteq> []
           \<and> post_handler fault fresh b st =
               (\<lparr>status = 201,
                 body = Envelope
                   (One \<lparr>task_id = fresh, task_text = Some s, task_completed = Some False\<rparr>)
                   201 ''Todo Created''\<rparr>,
                st @ [\<lparr>task_id = fresh, task_text = Some s, task_completed = Some False\<rparr>])))
   \<and> (get_prop ''text'' b = Some w \<and> castString w = Inr (Some s) \<and> s \<noteq> []
        \<and> fresh \<notin> ids st \<longrightarrow>
        post_handler None fresh b st =
          (\<lparr>status = 201,
            body = Envelope
              (One \<lparr>task_id = fresh, task_text = Some s, task_completed = Some False\<rparr>)
              201 ''Todo Created''\<rparr>,
           st @ [\<lparr>task_id = fresh, task_text = Some s, task_completed = Some False\<rparr>]))"
proof (intro conjI impI)
  assume "get_prop ''text'' (Some kvs) = get_prop ''text'' (Some kvs')"
  then show "post_handler fault fresh (Some kvs) st = post_handler fault fresh (Some kvs') st"
    by (simp add: post_handler_def post_try_def destructure_def)
next
  show "post_handler fault fresh (Some [(''text'', v), (''completed'', JBool True)]) st =
       post_handler fault fresh (Some [(''text'', v)]) st"
    by (simp add: post_handler_def post_try_def destructure_def)
next
  assume "status (fst (post_handler fault fresh b st)) = 201"
  then show "\<exists>w s. get_prop ''text'' b = Some w \<and> castString w = Inr (Some s) \<and> s \<noteq> []
           \<and> post_handler fault fresh b st =
               (\<lparr>status = 201,
                 body = Envelope
                   (One \<lparr>task_id = fresh, task_text = Some s, task_completed = Some False\<rparr>)
                   201 ''Todo Created''\<rparr>,
                st @ [\<lparr>task_id = fresh, task_text = Some s, task_completed = Some False\<rparr>])"
    by (rule post_created_from_text)
next
  assume "get_prop ''text'' b = Some w \<and> castString w = Inr (Some s) \<and> s \<noteq> []
        \<and> fresh \<notin> ids st"
  then show "post_handler None fresh b st =
          (\<lparr>status = 201,
            body = Envelope
              (One \<lparr>task_id = fresh, task_text = Some s, task_completed = Some False\<rparr>)
              201 ''Todo Created''\<rparr>,
           st @ [\<lparr>task_id = fresh, task_text = Some s, task_completed = Some False\<rparr>])"
    by (simp add: post_success)
qed

theorem create_ignores_completed_witness:
  "get_prop ''text'' (Some [(''text'', JStr ''buy milk''), (''completed'', JBool True)]) =
     get_prop ''text'' (Some [(''text'', JStr ''buy milk'')])
   \<and> get_prop ''text'' (Some [(''text'', JStr ''buy milk''), (''completed'', JBool True)]) =
       Some (JStr ''buy milk'')
   \<and> castString (JStr ''buy milk'') = Inr (Some ''buy milk'') \<and> ''buy milk'' \<noteq> []
   \<and> oid0 \<notin> ids []
   \<and> post_handler None oid0
         (Some [(''text'', JStr ''buy milk''), (''completed'', JBool True)]) [] =
       (\<lparr>status = 201, body = Envelope (One milk) 201 ''Todo Created''\<rparr>, [milk])
   \<and> status (fst (post_handler None oid0
         (Some [(''text'', JStr ''buy milk''), (''completed'', JBool True)]) [])) = 201
   \<and> post_handler None oid0
         (Some [(''text'', JStr ''buy milk''), (''completed'', JBool True)]) [] =
       post_handler None oid0 (Some [(''text'', JStr ''buy milk'')]) []"
proof -
  have h1: "get_prop ''text'' (Some [(''text'', JStr ''buy milk''), (''completed'', JBool True)]) =
     get_prop ''text'' (Some [(''text'', JStr ''buy milk'')])"
    by simp
  have h2: "get_prop ''text'' (Some [(''text'', JStr ''buy milk''), (''completed'', JBool True)]) =
       Some (JStr ''buy milk'')"
    by simp
  have h3: "castString (JStr ''buy milk'') = Inr (Some ''buy milk'')" by simp
  have h4: "''buy milk'' \<noteq> []" by simp
  have h5: "oid0 \<notin> ids []" by (simp add: ids_def)
  note r = create_ignores_completed
    [where kvs = "[(''text'', JStr ''buy milk''), (''completed'', JBool True)]"
       and kvs' = "[(''text'', JStr ''buy milk'')]"
       and b = "Some [(''text'', JStr ''buy milk''), (''completed'', JBool True)]"
       and w = "JStr ''buy milk''" and s = "''buy milk''" and v = "JStr ''buy milk''"
       and fault = None and fresh = oid0 and st = "[]"]
  from r h2 h3 h4 h5 have "post_handler None oid0
         (Some [(''text'', JStr ''buy milk''), (''completed'', JBool True)]) [] =
       (\<lparr>status = 201,
         body = Envelope
           (One \<lparr>task_id = oid0, task_text = Some ''buy milk'', task_completed = Some False\<rparr>)
           201 ''Todo Created''\<rparr>,
        [] @ [\<lparr>task_id = oid0, task_text = Some ''buy milk'', task_completed = Some False\<rparr>])"
    by blast
  then have p: "post_handler None oid0
         (Some [(''text'', JStr ''buy milk''), (''completed'', JBool True)]) [] =
       (\<lparr>status = 201, body = Envelope (One milk) 201 ''Todo Created''\<rparr>, [milk])"
    by (simp add: milk_def)
  then have q: "status (fst (post_handler None oid0
         (Some [(''text'', JStr ''buy milk''), (''completed'', JBool True)]) [])) = 201"
    by simp
  from r h1 have e: "post_handler None oid0
         (Some [(''text'', JStr ''buy milk''), (''completed'', JBool True)]) [] =
       post_handler None oid0 (Some [(''text'', JStr ''buy milk'')]) []"
    by blast
  from h1 h2 h3 h4 h5 p q e show ?thesis by blast
qed

section \<open>Update\<close>

lemma put_try_Inr:
  assumes "put_try fault id_arg b st = Inr (r, st')"
  shows "\<exists>i u. castUpdate (get_prop ''text'' b) (get_prop ''completed'' b) = Inr u
           \<and> st' = snd (update_first i (apply_update u) st)"
proof -
  from assms obtain a c p where
    a: "destructure ''text'' b = Inr a" and c: "destructure ''completed'' b = Inr c"
    and f: "Task_findByIdAndUpdate fault id_arg a c st = Inr p" and p: "snd p = st'"
    by (auto simp: put_try_def split: sum.splits option.splits prod.splits)
  from Task_findByIdAndUpdate_Inr [OF f] destructure_Inr [OF a] destructure_Inr [OF c] p
  show ?thesis by auto
qed

lemma snd_put_handler:
  "snd (put_handler fault id_arg b st) = st
   \<or> (\<exists>i u. castUpdate (get_prop ''text'' b) (get_prop ''completed'' b) = Inr u
          \<and> snd (put_handler fault id_arg b st) = snd (update_first i (apply_update u) st))"
proof (cases "put_try fault id_arg b st")
  case (Inl e)
  then show ?thesis by (simp add: put_handler_def)
next
  case (Inr p)
  obtain r st' where p: "p = (r, st')" by (cases p)
  from put_try_Inr [OF Inr [unfolded p]] Inr p show ?thesis
    by (auto simp: put_handler_def)
qed

lemma put_preserves_wf: "wf_store st \<Longrightarrow> wf_store (snd (put_handler fault id_arg b st))"
  using snd_put_handler [of fault id_arg b st]
  by (auto simp: wf_store_def update_first_ids task_id_apply_update)

lemma put_preserves_ok:
  assumes "store_ok st" and "get_prop ''text'' b \<noteq> Some JNull"
    and "get_prop ''completed'' b \<noteq> Some JNull"
  shows "store_ok (snd (put_handler fault id_arg b st))"
proof -
  from snd_put_handler [of fault id_arg b st]
  consider "snd (put_handler fault id_arg b st) = st"
    | i u where "castUpdate (get_prop ''text'' b) (get_prop ''completed'' b) = Inr u"
        "snd (put_handler fault id_arg b st) = snd (update_first i (apply_update u) st)"
    by blast
  then show ?thesis
  proof cases
    case 1
    with assms(1) show ?thesis by simp
  next
    case 2
    from castUpdate_not_null [OF 2(1) assms(2) assms(3)]
    have "\<And>t. task_ok t \<Longrightarrow> task_ok (apply_update u t)"
      by (simp add: apply_update_ok)
    from update_first_ok [OF this] assms(1) show ?thesis
      by (simp add: 2(2) store_ok_def)
  qed
qed

lemma put_completed_true:
  assumes "wf_store st" and "t \<in> set st" and "castObjectId id_arg = Inr (task_id t)"
  shows "put_handler None id_arg (Some [(''completed'', JBool True)]) st =
           (\<lparr>status = 200,
             body = Envelope (One (t\<lparr>task_completed := Some True\<rparr>)) 200 ''Todo Updated''\<rparr>,
            map (\<lambda>u. if task_id u = task_id t then u\<lparr>task_completed := Some True\<rparr> else u) st)"
proof -
  have u: "castUpdate None (Some (JBool True)) =
             Inr \<lparr>set_text = None, set_completed = Some (Some True)\<rparr>"
    by (simp add: castUpdate_def)
  have a: "apply_update \<lparr>set_text = None, set_completed = Some (Some True)\<rparr> =
             (\<lambda>u. u\<lparr>task_completed := Some True\<rparr>)"
    by (rule ext) (simp add: apply_update_def)
  show ?thesis
    by (simp add: put_handler_def put_try_def destructure_def Task_findByIdAndUpdate_def
        assms(3) u a update_first_present [OF assms(1) assms(2)])
qed

text \<open>
  C4. For every stored task (in a collection with unique identifiers, on a working
  store), \<^verbatim>\<open>PUT /:id\<close> with the body \<^verbatim>\<open>{completed: true}\<close> answers 200 with the
  task, its \<^verbatim>\<open>completed\<close> now true and its \<^verbatim>\<open>_id\<close> and \<^verbatim>\<open>text\<close> as before;
  the collection, and what a following \<^verbatim>\<open>GET /\<close> lists, is the old one with that
  one task replaced.
\<close>

theorem update_completed_only:
  assumes "wf_store st" and "t \<in> set st" and "castObjectId id_arg = Inr (task_id t)"
  shows "put_handler None id_arg (Some [(''completed'', JBool True)]) st =
           (\<lparr>status = 200,
             body = Envelope (One (t\<lparr>task_completed := Some True\<rparr>)) 200 ''Todo Updated''\<rparr>,
            map (\<lambda>u. if task_id u = task_id t then u\<lparr>task_completed := Some True\<rparr> else u) st)
         \<and> listed (get_root_handler None QAbsent
               (snd (put_handler None id_arg (Some [(''completed'', JBool True)]) st))) =
             map (\<lambda>u. if u = t then t\<lparr>task_completed := Some True\<rparr> else u) st"
proof -
  have m: "map (\<lambda>u. if task_id u = task_id t then u\<lparr>task_completed := Some True\<rparr> else u) st =
           map (\<lambda>u. if u = t then t\<lparr>task_completed := Some True\<rparr> else u) st"
  proof (rule map_cong [OF refl])
    fix u assume "u \<in> set st"
    with assms(1) assms(2) have "task_id u = task_id t \<longleftrightarrow> u = t"
      by (auto simp: wf_store_def distinct_map inj_on_def)
    then show "(if task_id u = task_id t then u\<lparr>task_completed := Some True\<rparr> else u) =
               (if u = t then t\<lparr>task_completed := Some True\<rparr> else u)"
      by auto
  qed
  show ?thesis
    by (simp add: put_completed_true [OF assms] listed_get_root m)
qed

theorem update_completed_only_witness:
  "wf_store [milk, bread] \<and> milk \<in> set [milk, bread] \<and> castObjectId oid0 = Inr (task_id milk)
   \<and> put_handler None oid0 (Some [(''completed'', JBool True)]) [milk, bread] =
       (\<lparr>status = 200,
         body = Envelope (One \<lparr>task_id = oid0, task_text = Some ''buy milk'',
                               task_completed = Some True\<rparr>) 200 ''Todo Updated''\<rparr>,
        [\<lparr>task_id = oid0, task_text = Some ''buy milk'', task_completed = Some True\<rparr>, bread])"
proof -
  have h1: "wf_store [milk, bread]"
    by (simp add: wf_store_def milk_def bread_def oid0_neq_oid1)
  have h2: "milk \<in> set [milk, bread]" by simp
  have h3: "castObjectId oid0 = Inr (task_id milk)"
    by (simp add: castObjectId_oid0 milk_def)
  from update_completed_only [OF h1 h2 h3] h1 h2 h3 show ?thesis
    by (simp add: milk_def bread_def oid0_neq_oid1 [symmetric])
qed

lemma put_absent:
  assumes "castObjectId id_arg = Inr i" and "i \<notin> ids st" and "castable b"
  shows "put_handler None id_arg b st =
           (\<lparr>status = 404, body = ErrorBody ''Todo not found''\<rparr>, st)"
  using assms(3)
  by (auto simp: put_handler_def put_try_def Task_findByIdAndUpdate_def castable_def assms(1)
      update_first_absent [OF assms(2)] split: sum.splits)

lemma put_throws:
  assumes "\<not> isValidObjectId id_arg \<or> \<not> castable b \<or> fault \<noteq> None"
  shows "put_handler fault id_arg b st =
           (\<lparr>status = 500, body = ErrorBody ''Failed to update todo''\<rparr>, st)"
  using assms
  by (auto simp: put_handler_def put_try_def Task_findByIdAndUpdate_def castable_def
      castObjectId_def split: sum.splits)

text \<open>
  C5 (as amended). For every collection, every body and every identifier that does
  not resolve to a stored task, \<^verbatim>\<open>PUT /:id\<close> leaves the collection as it was
  and answers with an error payload: 404 when the identifier is a well-formed
  ObjectId string, the body's \<^verbatim>\<open>text\<close> and \<^verbatim>\<open>completed\<close> can be cast and the
  store works, 500 otherwise.
\<close>

theorem update_unknown_id:
  assumes "\<not> resolves id_arg st"
  shows "put_handler fault id_arg b st =
           (if isValidObjectId id_arg \<and> castable b \<and> fault = None
            then \<lparr>status = 404, body = ErrorBody ''Todo not found''\<rparr>
            else \<lparr>status = 500, body = ErrorBody ''Failed to update todo''\<rparr>,
            st)"
proof (cases "isValidObjectId id_arg \<and> castable b \<and> fault = None")
  case True
  then have c: "castObjectId id_arg = Inr (map hex_lower id_arg)"
    by (simp add: castObjectId_def)
  with assms have "map hex_lower id_arg \<notin> ids st"
    by (simp add: resolves_def)
  from put_absent [OF c this] True show ?thesis by simp
next
  case False
  then have "\<not> isValidObjectId id_arg \<or> \<not> castable b \<or> fault \<noteq> None" by simp
  from put_throws [OF this] False show ?thesis by simp
qed

theorem update_unknown_id_witness:
  "\<not> resolves oid1 [milk]
   \<and> put_handler None oid1 (Some [(''completed'', JBool True)]) [milk] =
       (\<lparr>status = 404, body = ErrorBody ''Todo not found''\<rparr>, [milk])"
proof -
  have h: "\<not> resolves oid1 [milk]"
    by (simp add: resolves_def castObjectId_oid1 ids_def milk_def oid0_neq_oid1 [symmetric])
  have v: "isValidObjectId oid1"
    by (simp add: isValidObjectId_def oid1_def is_hex_def)
  have c: "castable (Some [(''completed'', JBool True)])"
    by (simp add: castable_def destructure_def castUpdate_def)
  from update_unknown_id [OF h, of None "Some [(''completed'', JBool True)]"] h v c
  show ?thesis by simp
qed

text \<open>
  C5 as it is written fails on an identifier that is not an ObjectId string:
  \<^verbatim>\<open>PUT /abc\<close> resolves to no stored task, the cast of the identifier throws
  inside \<^verbatim>\<open>findByIdAndUpdate\<close>, and the \<^verbatim>\<open>catch\<close> answers 500.
\<close>

theorem update_malformed_id_counterexample:
  "\<not> resolves ''abc'' [milk]
   \<and> put_handler None ''abc'' (Some [(''completed'', JBool True)]) [milk] =
       (\<lparr>status = 500, body = ErrorBody ''Failed to update todo''\<rparr>, [milk])"
  by (simp add: resolves_def castObjectId_def isValidObjectId_def put_handler_def put_try_def
      destructure_def Task_findByIdAndUpdate_def)

section \<open>Delete\<close>

lemma delete_try_Inr:
  assumes "delete_try fault id_arg st = Inr (r, st')"
  shows "\<exists>i. st' = snd (delete_first i st)"
proof -
  from assms obtain p where f: "Task_findByIdAndDelete fault id_arg st = Inr p"
    and p: "snd p = st'"
    by (auto simp: delete_try_def split: sum.splits option.splits prod.splits)
  from Task_findByIdAndDelete_Inr [OF f] p show ?thesis by auto
qed

lemma snd_delete_handler:
  "snd (delete_handler fault id_arg st) = st
   \<or> (\<exists>i. snd (delete_handler fault id_arg st) = snd (delete_first i st))"
proof (cases "delete_try fault id_arg st")
  case (Inl e)
  then show ?thesis by (simp add: delete_handler_def)
next
  case (Inr p)
  obtain r st' where p: "p = (r, st')" by (cases p)
  from delete_try_Inr [OF Inr [unfolded p]] Inr p show ?thesis
    by (auto simp: delete_handler_def)
qed

lemma delete_preserves_wf: "wf_store st \<Longrightarrow> wf_store (snd (delete_handler fault id_arg st))"
  using snd_delete_handler [of fault id_arg st] by (auto simp: delete_first_wf)

lemma delete_preserves_ok:
  assumes "store_ok st"
  shows "store_ok (snd (delete_handler fault id_arg st))"
proof -
  have "store_ok (snd (delete_first i st))" for i
    using assms delete_first_set [of i st] by (auto simp: store_ok_def list_all_iff)
  with assms snd_delete_handler [of fault id_arg st] show ?thesis by auto
qed

lemma delete_present:
  assumes "wf_store st" and "t \<in> set st" and "castObjectId id_arg = Inr (task_id t)"
  shows "delete_handler None id_arg st =
           (\<lparr>status = 200, body = Envelope (One t) 200 ''Todo deleted successfully''\<rparr>,
            filter (\<lambda>u. task_id u \<noteq> task_id t) st)"
  by (simp add: delete_handler_def delete_try_def Task_findByIdAndDelete_def assms(3)
      delete_first_present [OF assms(1) assms(2)])

lemma delete_absent:
  assumes "castObjectId id_arg = Inr i" and "i \<notin> ids st"
  shows "delete_handler None id_arg st =
           (\<lparr>status = 404, body = ErrorBody ''Todo not found''\<rparr>, st)"
  by (simp add: delete_handler_def delete_try_def Task_findByIdAndDelete_def assms(1)
      delete_first_absent [OF assms(2)])

text \<open>
  C6. For every stored task (in a collection with unique identifiers, on a working
  store), \<^verbatim>\<open>DELETE /:id\<close> answers 200 with the task and removes exactly it: the
  collection, and what a following \<^verbatim>\<open>GET /\<close> lists, is the old one without that
  task, no \<^verbatim>\<open>GET /\<close> lists the task again, and a second \<^verbatim>\<open>DELETE\<close> with the
  same identifier answers 404 and changes nothing.
\<close>

theorem delete_removes:
  assumes "wf_store st" and "t \<in> set st" and "castObjectId id_arg = Inr (task_id t)"
  shows "delete_handler None id_arg st =
           (\<lparr>status = 200, body = Envelope (One t) 200 ''Todo deleted successfully''\<rparr>,
            filter (\<lambda>u. u \<noteq> t) st)
         \<and> listed (get_root_handler None QAbsent (snd (delete_handler None id_arg st))) =
             filter (\<lambda>u. u \<noteq> t) st
         \<and> t \<notin> set (listed (get_root_handler None q (snd (delete_handler None id_arg st))))
         \<and> delete_handler None id_arg (snd (delete_handler None id_arg st)) =
             (\<lparr>status = 404, body = ErrorBody ''Todo not found''\<rparr>,
              snd (delete_handler None id_arg st))"
proof -
  have f: "filter (\<lambda>u. task_id u \<noteq> task_id t) st = filter (\<lambda>u. u \<noteq> t) st"
  proof (rule filter_cong [OF refl])
    fix u assume "u \<in> set st"
    with assms(1) assms(2) show "(task_id u \<noteq> task_id t) = (u \<noteq> t)"
      by (auto simp: wf_store_def distinct_map inj_on_def)
  qed
  have d: "delete_handler None id_arg st =
           (\<lparr>status = 200, body = Envelope (One t) 200 ''Todo deleted successfully''\<rparr>,
            filter (\<lambda>u. u \<noteq> t) st)"
    using delete_present [OF assms] by (simp add: f)
  have n: "task_id t \<notin> ids (filter (\<lambda>u. u \<noteq> t) st)"
    unfolding f [symmetric] by (auto simp: ids_def)
  have l: "t \<notin> set (listed (get_root_handler None q (filter (\<lambda>u. u \<noteq> t) st)))"
    by (simp add: listed_get_root)
  show ?thesis
    by (simp add: d listed_get_root delete_absent [OF assms(3) n] l)
qed

theorem delete_removes_witness:
  "wf_store [milk, bread] \<and> milk \<in> set [milk, bread] \<and> castObjectId oid0 = Inr (task_id milk)
   \<and> delete_handler None oid0 [milk, bread] =
       (\<lparr>status = 200, body = Envelope (One milk) 200 ''Todo deleted successfully''\<rparr>, [bread])
   \<and> delete_handler None oid0 [bread] =
       (\<lparr>status = 404, body = ErrorBody ''Todo not found''\<rparr>, [bread])"
proof -
  have h1: "wf_store [milk, bread]"
    by (simp add: wf_store_def milk_def bread_def oid0_neq_oid1)
  have h2: "milk \<in> set [milk, bread]" by simp
  have h3: "castObjectId oid0 = Inr (task_id milk)"
    by (simp add: castObjectId_oid0 milk_def)
  have ne: "bread \<noteq> milk"
    by (simp add: milk_def bread_def)
  note r = delete_removes [OF h1 h2 h3, of QAbsent]
  have d: "delete_handler None oid0 [milk, bread] =
       (\<lparr>status = 200, body = Envelope (One milk) 200 ''Todo deleted successfully''\<rparr>, [bread])"
    using r by (simp add: ne)
  have "delete_handler None oid0 (snd (delete_handler None oid0 [milk, bread])) =
       (\<lparr>status = 404, body = ErrorBody ''Todo not found''\<rparr>,
        snd (delete_handler None oid0 [milk, bread]))"
    using r by blast
  then have e: "delete_handler None oid0 [bread] =
       (\<lparr>status = 404, body = ErrorBody ''Todo not found''\<rparr>, [bread])"
    by (simp add: d)
  from h1 h2 h3 d e show ?thesis by blast
qed

section \<open>Failures of the store layer\<close>

text \<open>
  C9. When the store layer fails, every one of the five handlers answers 500 with
  its own fixed message, the same for every failure, and leaves the collection as
  it was; and whatever is thrown inside the \<^verbatim>\<open>try\<close> block of a state-changing
  handler (a validation error, a cast error, a duplicate key as well) ends in that
  same answer. A handler returns a response in every case.
\<close>

theorem store_failure_is_500:
  "post_handler (Some e) fresh b st =
     (\<lparr>status = 500, body = ErrorBody ''Failed to create todo''\<rparr>, st)
   \<and> get_root_handler (Some e) q st =
       \<lparr>status = 500, body = ErrorBody ''Failed to fetch todos''\<rparr>
   \<and> get_filter_handler (Some e) q st =
       \<lparr>status = 500, body = ErrorBody ''Failed to filter todos''\<rparr>
   \<and> put_handler (Some e) id_arg b st =
       (\<lparr>status = 500, body = ErrorBody ''Failed to update todo''\<rparr>, st)
   \<and> delete_handler (Some e) id_arg st =
       (\<lparr>status = 500, body = ErrorBody ''Failed to delete todo''\<rparr>, st)
   \<and> (post_try fault fresh b st = Inl e \<longrightarrow>
        post_handler fault fresh b st =
          (\<lparr>status = 500, body = ErrorBody ''Failed to create todo''\<rparr>, st))
   \<and> (put_try fault id_arg b st = Inl e \<longrightarrow>
        put_handler fault id_arg b st =
          (\<lparr>status = 500, body = ErrorBody ''Failed to update todo''\<rparr>, st))
   \<and> (delete_try fault id_arg st = Inl e \<longrightarrow>
        delete_handler fault id_arg st =
          (\<lparr>status = 500, body = ErrorBody ''Failed to delete todo''\<rparr>, st))"
proof (intro conjI impI)
  show "post_handler (Some e) fresh b st =
     (\<lparr>status = 500, body = ErrorBody ''Failed to create todo''\<rparr>, st)"
    by (simp add: post_handler_def post_try_def Task_save_def Let_def
        split: sum.splits option.splits)
  show "get_root_handler (Some e) q st =
       \<lparr>status = 500, body = ErrorBody ''Failed to fetch todos''\<rparr>"
    by (simp add: get_root_handler_def Task_find_def)
  show "get_filter_handler (Some e) q st =
       \<lparr>status = 500, body = ErrorBody ''Failed to filter todos''\<rparr>"
    by (simp add: get_filter_handler_def Task_find_def)
  show "put_handler (Some e) id_arg b st =
       (\<lparr>status = 500, body = ErrorBody ''Failed to update todo''\<rparr>, st)"
    by (rule put_throws) simp
  show "delete_handler (Some e) id_arg st =
       (\<lparr>status = 500, body = ErrorBody ''Failed to delete todo''\<rparr>, st)"
    by (simp add: delete_handler_def delete_try_def Task_findByIdAndDelete_def
        split: sum.splits)
next
  assume "post_try fault fresh b st = Inl e"
  then show "post_handler fault fresh b st =
          (\<lparr>status = 500, body = ErrorBody ''Failed to create todo''\<rparr>, st)"
    by (simp add: post_handler_def)
next
  assume "put_try fault id_arg b st = Inl e"
  then show "put_handler fault id_arg b st =
          (\<lparr>status = 500, body = ErrorBody ''Failed to update todo''\<rparr>, st)"
    by (simp add: put_handler_def)
next
  assume "delete_try fault id_arg st = Inl e"
  then show "delete_handler fault id_arg st =
          (\<lparr>status = 500, body = ErrorBody ''Failed to delete todo''\<rparr>, st)"
    by (simp add: delete_handler_def)
qed

theorem store_failure_is_500_witness:
  "post_try (Some (StoreFailure ''ECONNREFUSED'')) oid1 (Some [(''text'', JStr ''x'')]) [milk] =
     Inl (StoreFailure ''ECONNREFUSED'')
   \<and> put_try (Some (StoreFailure ''ECONNREFUSED'')) oid0 (Some [(''text'', JStr ''x'')]) [milk] =
     Inl (StoreFailure ''ECONNREFUSED'')
   \<and> delete_try (Some (StoreFailure ''ECONNREFUSED'')) oid0 [milk] =
     Inl (StoreFailure ''ECONNREFUSED'')
   \<and> post_handler (Some (StoreFailure ''ECONNREFUSED'')) oid1 (Some [(''text'', JStr ''x'')]) [milk] =
       (\<lparr>status = 500, body = ErrorBody ''Failed to create todo''\<rparr>, [milk])
   \<and> put_handler (Some (StoreFailure ''ECONNREFUSED'')) oid0 (Some [(''text'', JStr ''x'')]) [milk] =
       (\<lparr>status = 500, body = ErrorBody ''Failed to update todo''\<rparr>, [milk])
   \<and> delete_handler (Some (StoreFailure ''ECONNREFUSED'')) oid0 [milk] =
       (\<lparr>status = 500, body = ErrorBody ''Failed to delete todo''\<rparr>, [milk])"
proof -
  have h1: "post_try (Some (StoreFailure ''ECONNREFUSED'')) oid1 (Some [(''text'', JStr ''x'')]) [milk] =
     Inl (StoreFailure ''ECONNREFUSED'')"
    by (simp add: post_try_def destructure_def new_Task_def Task_save_def validate_def)
  have h2: "put_try (Some (StoreFailure ''ECONNREFUSED'')) oid0 (Some [(''text'', JStr ''x'')]) [milk] =
     Inl (StoreFailure ''ECONNREFUSED'')"
    by (simp add: put_try_def destructure_def Task_findByIdAndUpdate_def castObjectId_oid0
        castUpdate_def)
  have h3: "delete_try (Some (StoreFailure ''ECONNREFUSED'')) oid0 [milk] =
     Inl (StoreFailure ''ECONNREFUSED'')"
    by (simp add: delete_try_def Task_findByIdAndDelete_def castObjectId_oid0)
  note r = store_failure_is_500 [of "StoreFailure ''ECONNREFUSED''" oid1
      "Some [(''text'', JStr ''x'')]" "[milk]" QAbsent oid0
      "Some (StoreFailure ''ECONNREFUSED'')"]
  from r h1 h2 h3 show ?thesis by blast
qed

section \<open>The invariant of the data model\<close>

lemma reachable_wf: "reachable st \<Longrightarrow> wf_store st"
proof (induction rule: reachable.induct)
  case empty
  show ?case by (simp add: wf_store_def)
next
  case (post st fault fresh b)
  then show ?case by (simp add: post_preserves_wf)
next
  case (put st fault id_arg b)
  then show ?case by (simp add: put_preserves_wf)
next
  case (delete st fault id_arg)
  then show ?case by (simp add: delete_preserves_wf)
qed

lemma reachable_store_created: "reachable store_created"
  unfolding store_created_def by (intro reachable.intros)

lemma reachable_store_null_text: "reachable store_null_text"
  unfolding store_null_text_def by (intro reachable.intros reachable_store_created)

lemma reachable_store_null_completed: "reachable store_null_completed"
  unfolding store_null_completed_def by (intro reachable.intros reachable_store_created)

text \<open>
  \<^verbatim>\<open>POST /\<close> and \<^verbatim>\<open>DELETE /:id\<close> keep the invariant (lemmas \<open>post_preserves_ok\<close>
  and \<open>delete_preserves_ok\<close>), the two \<^verbatim>\<open>GET\<close> handlers change nothing, and
  \<^verbatim>\<open>PUT /:id\<close> keeps it when the body sets neither field to \<^verbatim>\<open>null\<close> (lemma
  \<open>put_preserves_ok\<close>).

  C8. The invariant does not hold in every reachable collection:
  \<^verbatim>\<open>POST {text: "buy milk"}\<close> builds a collection that satisfies it, and
  \<^verbatim>\<open>PUT {text: null}\<close> on the new task answers 200 and stores a task whose
  \<^verbatim>\<open>text\<close> is \<^verbatim>\<open>null\<close>.
\<close>

theorem update_breaks_invariant:
  "store_ok store_created
   \<and> put_handler None oid0 (Some [(''text'', JNull)]) store_created =
       (\<lparr>status = 200,
         body = Envelope (One \<lparr>task_id = oid0, task_text = None, task_completed = Some False\<rparr>)
                  200 ''Todo Updated''\<rparr>,
        [\<lparr>task_id = oid0, task_text = None, task_completed = Some False\<rparr>])
   \<and> \<not> store_ok store_null_text"
  by (simp add: store_created_eq store_null_text_eq store_ok_def task_ok_def milk_def
      put_handler_def put_try_def destructure_def Task_findByIdAndUpdate_def castObjectId_oid0
      castUpdate_def apply_update_def)

end
